theory Spec2Isabelle
  imports Main
begin

section \<open>File validation (validateFile in ResumeUpload.jsx)\<close>

text \<open>
  A browser File object, as far as the component reads it: its name and its byte size.
  A name is a JavaScript string, a sequence of UTF-16 code units, each a number below
  65536; units gives the code units of a text written in ASCII. The full stop is the
  code unit 46.
\<close>

record candidate_file =
  name :: "nat list"
  size_f :: nat

definition units :: "string \<Rightarrow> nat list" where
  "units s = map of_char s"

text \<open>
  validateFile returns \<^verbatim>\<open>{ valid: false, error: <message> }\<close> or \<^verbatim>\<open>{ valid: true }\<close>.
  The three failures are the constructors of ValidationError; error_text gives the text
  the source attaches to each.
\<close>

datatype ValidationError = NO_FILE | UNSUPPORTED_TYPE | TOO_LARGE

fun error_text :: "ValidationError \<Rightarrow> string" where
  "error_text NO_FILE = ''No file selected''"
| "error_text UNSUPPORTED_TYPE = ''Please upload a PDF, DOC, or DOCX file''"
| "error_text TOO_LARGE = ''File size must be less than 10MB''"

text \<open>
  String.prototype.toLowerCase, code unit by code unit. The capital I with a dot above
  (U+0130, code unit 304) becomes two code units, i and the combining dot above, so the
  lower-cased string can be longer than the string. Below 256 the capitals are A-Z and
  the accented capitals. For the remaining code units the lower-case table of Unicode
  is the parameter ucd; each of them becomes one code unit.
\<close>

definition toLowerUnit :: "(nat \<Rightarrow> nat) \<Rightarrow> nat \<Rightarrow> nat list" where
  "toLowerUnit ucd u =
     (if u = 304 then [105, 775]
      else if (65 \<le> u \<and> u \<le> 90) \<or> (192 \<le> u \<and> u \<le> 222 \<and> u \<noteq> 215) then [u + 32]
      else if u < 256 then [u]
      else [ucd u])"

definition toLowerCase :: "(nat \<Rightarrow> nat) \<Rightarrow> nat list \<Rightarrow> nat list" where
  "toLowerCase ucd s = concat (map (toLowerUnit ucd) s)"

text \<open>
  A table for the examples, whose names use no code unit above 255 other than 304: it
  leaves every code unit as it is.
\<close>

definition caseless :: "nat \<Rightarrow> nat" where
  "caseless u = u"

fun firstIndex :: "'a list \<Rightarrow> 'a \<Rightarrow> nat option" where
  "firstIndex [] c = None"
| "firstIndex (x # xs) c = (if x = c then Some 0 else map_option Suc (firstIndex xs c))"

text \<open>String.prototype.lastIndexOf: the search runs from the end; -1 when there is no match.\<close>

definition lastIndexOf :: "nat list \<Rightarrow> nat \<Rightarrow> int" where
  "lastIndexOf s c =
     (case firstIndex (rev s) c of
        None \<Rightarrow> - 1
      | Some k \<Rightarrow> int (length s) - 1 - int k)"

text \<open>
  String.prototype.substr with one argument: a negative start counts from the end of the
  string (and stops at its beginning), a start beyond the end gives the empty string.
\<close>

definition substr :: "nat list \<Rightarrow> int \<Rightarrow> nat list" where
  "substr s start =
     (let len = int (length s);
          from = (if start < 0 then max (len + start) 0 else min start len)
      in drop (nat from) s)"

definition allowedTypes :: "nat list list" where
  "allowedTypes = [units ''.pdf'', units ''.doc'', units ''.docx'']"

text \<open>
  \<^verbatim>\<open>selectedFile.name.toLowerCase().substr(selectedFile.name.lastIndexOf('.'))\<close>: the
  position of the last full stop is taken in the name as it is, and the cut is made in
  the lower-cased name.
\<close>

definition fileExtension :: "(nat \<Rightarrow> nat) \<Rightarrow> candidate_file \<Rightarrow> nat list" where
  "fileExtension ucd selectedFile =
     substr (toLowerCase ucd (name selectedFile)) (lastIndexOf (name selectedFile) 46)"

definition validateFile ::
  "(nat \<Rightarrow> nat) \<Rightarrow> candidate_file option \<Rightarrow> ValidationError + unit" where
  "validateFile ucd selectedFile =
     (case selectedFile of
        None \<Rightarrow> Inl NO_FILE
      | Some f \<Rightarrow>
          if \<not> List.member allowedTypes (fileExtension ucd f) then Inl UNSUPPORTED_TYPE
          else if size_f f > 10 * 1024 * 1024 then Inl TOO_LARGE
          else Inr ())"

subsection \<open>The extension in the specification's words\<close>

text \<open>
  The specification derives the extension from the substring after the last full stop of
  the file name; a name with no full stop has none. The predicate spec_allowed says that
  this substring, in lower case, is pdf, doc or docx. Neither uses lastIndexOf or substr.
\<close>

definition spec_extension :: "nat list \<Rightarrow> nat list option" where
  "spec_extension n =
     (if 46 \<in> set n
      then Some (rev (takeWhile (\<lambda>c. c \<noteq> 46) (rev n)))
      else None)"

definition spec_allowed :: "(nat \<Rightarrow> nat) \<Rightarrow> nat list \<Rightarrow> bool" where
  "spec_allowed ucd n =
     (case spec_extension n of
        None \<Rightarrow> False
      | Some e \<Rightarrow> toLowerCase ucd e \<in> {units ''pdf'', units ''doc'', units ''docx''})"


section \<open>The upload component (ResumeUpload.jsx)\<close>

text \<open>
  What the network layer hands back. A rejected request carries an error object, read
  through \<^verbatim>\<open>err.response?.data?.detail\<close> and \<^verbatim>\<open>err.message\<close>; either may be undefined
  (None) and, when present, is a string. A fulfilled upload carries the candidate
  projection in \<^verbatim>\<open>response.data\<close>.
\<close>

record api_error =
  detail :: "string option"
  message :: "string option"

record upload_result =
  candidate_name :: string
  candidate_email :: "string option"
  candidate_location :: "string option"
  skills :: "string list"
  has_embeddings :: bool

text \<open>Calls that leave the components, in the order they are made.\<close>

datatype console_arg = Text string | ErrObj api_error

datatype call =
    resumeAPI_upload candidate_file
  | authAPI_updateStatus string
  | authAPI_getCurrentUser
  | console_error "console_arg list"

text \<open>JavaScript truthiness of a string that may be undefined: the empty string is falsy.\<close>

definition truthy :: "string option \<Rightarrow> bool" where
  "truthy v = (case v of None \<Rightarrow> False | Some s \<Rightarrow> s \<noteq> [])"

text \<open>The operator \<^verbatim>\<open>a || b\<close>: a when a is truthy, b otherwise.\<close>

definition js_or :: "string option \<Rightarrow> string option \<Rightarrow> string option" where
  "js_or a b = (if truthy a then a else b)"

text \<open>\<^verbatim>\<open>err.response?.data?.detail || err.message || 'Something went wrong'\<close>\<close>

definition uploadErrorText :: "api_error \<Rightarrow> string option" where
  "uploadErrorText err =
     js_or (js_or (detail err) (message err)) (Some ''Something went wrong'')"

text \<open>
  The component's state hooks (file_s is the hook named file). The version of the
  component that keeps the result screen (it has no onSuccess property) has one more
  hook, result.
\<close>

record upload_state =
  file_s :: "candidate_file option"
  uploading :: bool
  error :: "string option"
  dragActive :: bool

record upload_state_r = upload_state +
  result :: "upload_result option"

definition initial_upload :: upload_state where
  "initial_upload = \<lparr>file_s = None, uploading = False, error = None, dragActive = False\<rparr>"

definition initial_upload_r :: upload_state_r where
  "initial_upload_r =
     \<lparr>file_s = None, uploading = False, error = None, dragActive = False, result = None\<rparr>"

definition handleFileSelect ::
  "(nat \<Rightarrow> nat) \<Rightarrow> candidate_file option \<Rightarrow> upload_state \<Rightarrow> upload_state" where
  "handleFileSelect ucd selectedFile s =
     (case validateFile ucd selectedFile of
        Inl e \<Rightarrow> s\<lparr>error := Some (error_text e)\<rparr>
      | Inr _ \<Rightarrow> s\<lparr>file_s := selectedFile, error := None\<rparr>)"

definition handleFileSelect_r ::
  "(nat \<Rightarrow> nat) \<Rightarrow> candidate_file option \<Rightarrow> upload_state_r \<Rightarrow> upload_state_r" where
  "handleFileSelect_r ucd selectedFile s =
     (case validateFile ucd selectedFile of
        Inl e \<Rightarrow> s\<lparr>error := Some (error_text e)\<rparr>
      | Inr _ \<Rightarrow> s\<lparr>file_s := selectedFile, error := None, result := None\<rparr>)"

text \<open>
  handleUpload is an async function. Its first part runs up to the await and issues the
  request (the same in both versions of the component); its second part runs when the
  request settles, on the state the component has by then.

  The handler is created by a render of the component and reads the hook file as that
  render saw it (the first argument below); it has no test of uploading. Its setters
  act on the state the component has when they are called (the second argument).
\<close>

definition handleUpload_begin ::
  "candidate_file option \<Rightarrow> 'a upload_state_scheme \<Rightarrow> 'a upload_state_scheme \<times> call list" where
  "handleUpload_begin file_of_render s =
     (case file_of_render of
        None \<Rightarrow> (s\<lparr>error := Some ''Please select a file first''\<rparr>, [])
      | Some f \<Rightarrow> (s\<lparr>uploading := True, error := None\<rparr>, [resumeAPI_upload f]))"

text \<open>
  The second component of the result is the argument of the onSuccess call, when the
  property is set (onSuccess) and the request was fulfilled.
\<close>

definition handleUpload_settle ::
  "bool \<Rightarrow> api_error + upload_result \<Rightarrow> upload_state \<Rightarrow> upload_state \<times> upload_result option" where
  "handleUpload_settle onSuccess outcome s =
     (case outcome of
        Inr response_data \<Rightarrow>
          (s\<lparr>file_s := None, uploading := False\<rparr>,
           if onSuccess then Some response_data else None)
      | Inl err \<Rightarrow>
          (s\<lparr>error := uploadErrorText err, uploading := False\<rparr>, None))"

definition handleUpload_settle_r ::
  "api_error + upload_result \<Rightarrow> upload_state_r \<Rightarrow> upload_state_r" where
  "handleUpload_settle_r outcome s =
     (case outcome of
        Inr response_data \<Rightarrow> s\<lparr>result := Some response_data, file_s := None, uploading := False\<rparr>
      | Inl err \<Rightarrow> s\<lparr>error := uploadErrorText err, uploading := False\<rparr>)"

definition reset :: "upload_state_r \<Rightarrow> upload_state_r" where
  "reset s = s\<lparr>file_s := None, result := None, error := None\<rparr>"

text \<open>
  The upload button: \<^verbatim>\<open>disabled={!file || uploading}\<close>, \<^verbatim>\<open>onClick={handleUpload}\<close>. Both
  properties are those of the last render: a click reaches the button as that render
  left it, disabled or not, and runs that render's handler, whatever the hooks have
  become since. A click on a disabled button runs no handler. The older version renders
  the result screen, which has no upload button, while result is set.

  clickUpload_on takes the state the last render showed and the state of the hooks;
  clickUpload is the click on a form whose last render shows the state of its hooks.
\<close>

definition uploadDisabled :: "'a upload_state_scheme \<Rightarrow> bool" where
  "uploadDisabled s = (file_s s = None \<or> uploading s)"

definition clickUpload_on :: "upload_state \<Rightarrow> upload_state \<Rightarrow> upload_state \<times> call list" where
  "clickUpload_on rendered_state s =
     (if uploadDisabled rendered_state then (s, [])
      else handleUpload_begin (file_s rendered_state) s)"

definition clickUpload :: "upload_state \<Rightarrow> upload_state \<times> call list" where
  "clickUpload s = clickUpload_on s s"

definition clickUpload_r_on ::
  "upload_state_r \<Rightarrow> upload_state_r \<Rightarrow> upload_state_r \<times> call list" where
  "clickUpload_r_on rendered_state s =
     (if result rendered_state \<noteq> None \<or> uploadDisabled rendered_state then (s, [])
      else handleUpload_begin (file_s rendered_state) s)"

definition clickUpload_r :: "upload_state_r \<Rightarrow> upload_state_r \<times> call list" where
  "clickUpload_r s = clickUpload_r_on s s"

subsection \<open>The form under its events\<close>

text \<open>
  The other handlers of the form: handleDrag and handleDrop (a drop takes the first file
  only), and the delete icon beside the staged file, which is there only if the last
  render had a staged file.
\<close>

definition handleDrag :: "string \<Rightarrow> upload_state \<Rightarrow> upload_state" where
  "handleDrag etype s =
     (if etype = ''dragenter'' \<or> etype = ''dragover'' then s\<lparr>dragActive := True\<rparr>
      else if etype = ''dragleave'' then s\<lparr>dragActive := False\<rparr>
      else s)"

definition handleDrop ::
  "(nat \<Rightarrow> nat) \<Rightarrow> candidate_file list \<Rightarrow> upload_state \<Rightarrow> upload_state" where
  "handleDrop ucd files s =
     (case files of
        [] \<Rightarrow> s\<lparr>dragActive := False\<rparr>
      | f # _ \<Rightarrow> handleFileSelect ucd (Some f) (s\<lparr>dragActive := False\<rparr>))"

definition clickDelete :: "upload_state \<Rightarrow> upload_state \<Rightarrow> upload_state" where
  "clickDelete rendered_state s =
     (if file_s rendered_state = None then s else s\<lparr>file_s := None\<rparr>)"

text \<open>
  What can happen to a mounted form: the user picks a file (or cancels the dialog),
  drags, drops, clicks the delete icon or the upload button, one of the requests in
  flight settles (the one at the given position), or the component renders. The system
  state is the hooks of the form, the state its last render showed, the files sent and
  not yet answered, and all the calls made so far. Events need not be separated by a
  render.
\<close>

datatype event =
    Pick "candidate_file option"
  | Drag string
  | Drop "candidate_file list"
  | Delete
  | Click
  | Settle nat "api_error + upload_result"
  | Render

record form_system =
  form :: upload_state
  rendered :: upload_state
  inflight :: "candidate_file list"
  sent :: "call list"

definition initial_system :: form_system where
  "initial_system =
     \<lparr>form = initial_upload, rendered = initial_upload, inflight = [], sent = []\<rparr>"

fun uploaded_files :: "call list \<Rightarrow> candidate_file list" where
  "uploaded_files [] = []"
| "uploaded_files (resumeAPI_upload f # cs) = f # uploaded_files cs"
| "uploaded_files (_ # cs) = uploaded_files cs"

fun step :: "(nat \<Rightarrow> nat) \<Rightarrow> bool \<Rightarrow> event \<Rightarrow> form_system \<Rightarrow> form_system" where
  "step ucd cb (Pick c) y = y\<lparr>form := handleFileSelect ucd c (form y)\<rparr>"
| "step ucd cb (Drag etype) y = y\<lparr>form := handleDrag etype (form y)\<rparr>"
| "step ucd cb (Drop files) y = y\<lparr>form := handleDrop ucd files (form y)\<rparr>"
| "step ucd cb Delete y = y\<lparr>form := clickDelete (rendered y) (form y)\<rparr>"
| "step ucd cb Click y =
     (case clickUpload_on (rendered y) (form y) of
        (s, calls) \<Rightarrow>
          y\<lparr>form := s, inflight := inflight y @ uploaded_files calls, sent := sent y @ calls\<rparr>)"
| "step ucd cb (Settle i outcome) y =
     (if i < length (inflight y)
      then y\<lparr>form := fst (handleUpload_settle cb outcome (form y)),
             inflight := take i (inflight y) @ drop (Suc i) (inflight y)\<rparr>
      else y)"
| "step ucd cb Render y = y\<lparr>rendered := form y\<rparr>"

fun run :: "(nat \<Rightarrow> nat) \<Rightarrow> bool \<Rightarrow> event list \<Rightarrow> form_system \<Rightarrow> form_system" where
  "run ucd cb [] y = y"
| "run ucd cb (e # es) y = run ucd cb es (step ucd cb e y)"

text \<open>The same events, with a render of the component before every click on the upload button.\<close>

fun rendered_clicks :: "event list \<Rightarrow> event list" where
  "rendered_clicks [] = []"
| "rendered_clicks (Click # es) = Render # Click # rendered_clicks es"
| "rendered_clicks (e # es) = e # rendered_clicks es"

text \<open>
  Single flight: at most one upload awaits its answer, and uploading is set exactly while
  one does.
\<close>

definition single_flight :: "form_system \<Rightarrow> bool" where
  "single_flight y =
     (length (inflight y) \<le> 1 \<and> uploading (form y) = (inflight y \<noteq> []))"


section \<open>The dashboard (Dashboard.jsx)\<close>

text \<open>
  The status field of the user record in the response body: missing (undefined), null or
  a string.
\<close>

datatype status_value = Absent | Null | Str string

record user_record =
  user_name :: string
  status :: status_value

text \<open>
  statusToStepMap is an object literal, so reading a property of it also finds the
  members it inherits from Object.prototype. A value read from it is one of its own
  numbers or such an inherited member (a function, or the prototype object itself):
  all of them are truthy and none is equal to a number.
\<close>

datatype step_value = StepNum nat | ProtoMember string

definition statusToStepMap :: "(string \<times> nat) list" where
  "statusToStepMap =
     [(''registered'', 0),
      (''uploaded_resume'', 1),
      (''scheduled_intake'', 2),
      (''completed_assessment'', 3),
      (''uploaded_results'', 4),
      (''completed_onboarding'', 5)]"

definition objectPrototype :: "string list" where
  "objectPrototype =
     [''constructor'', ''hasOwnProperty'', ''isPrototypeOf'', ''propertyIsEnumerable'',
      ''toLocaleString'', ''toString'', ''valueOf'', ''__proto__'',
      ''__defineGetter__'', ''__defineSetter__'', ''__lookupGetter__'', ''__lookupSetter__'']"

text \<open>The property key a status is converted to when it indexes the object.\<close>

fun propertyKey :: "status_value \<Rightarrow> string" where
  "propertyKey Absent = ''undefined''"
| "propertyKey Null = ''null''"
| "propertyKey (Str s) = s"

text \<open>\<^verbatim>\<open>statusToStepMap[key]\<close>; None is undefined.\<close>

definition getProperty :: "string \<Rightarrow> step_value option" where
  "getProperty key =
     (case map_of statusToStepMap key of
        Some n \<Rightarrow> Some (StepNum n)
      | None \<Rightarrow> if List.member objectPrototype key then Some (ProtoMember key) else None)"

text \<open>\<^verbatim>\<open>const currentStepIndex = statusToStepMap[response.data.status] || 0\<close>\<close>

definition currentStepIndex :: "status_value \<Rightarrow> step_value" where
  "currentStepIndex st =
     (case getProperty (propertyKey st) of
        None \<Rightarrow> StepNum 0
      | Some (StepNum n) \<Rightarrow> if n = 0 then StepNum 0 else StepNum n
      | Some (ProtoMember k) \<Rightarrow> ProtoMember k)"

text \<open>\<^verbatim>\<open>!status\<close>: undefined, null and the empty string are falsy.\<close>

fun falsy :: "status_value \<Rightarrow> bool" where
  "falsy Absent = True"
| "falsy Null = True"
| "falsy (Str s) = (s = [])"

text \<open>The component's state hooks (error_d is the hook named error).\<close>

record dashboard =
  user :: "user_record option"
  loading :: bool
  error_d :: string
  currentStep :: step_value
  showResumeUpload :: bool

definition initial_dashboard :: dashboard where
  "initial_dashboard =
     \<lparr>user = None, loading = True, error_d = [], currentStep = StepNum 0,
      showResumeUpload = False\<rparr>"

text \<open>
  fetchUserData changes no state before its request settles; the function below is the
  whole of it, given the outcome of the request and the state at that moment.
  currentStep holds what setCurrentStep was given. (Given a function, the setter would
  call it on the previous step; the properties below speak of currentStep only where it
  was given a number.)
\<close>

definition fetchUserData :: "api_error + user_record \<Rightarrow> dashboard \<Rightarrow> dashboard \<times> call list" where
  "fetchUserData outcome d =
     (case outcome of
        Inr response_data \<Rightarrow>
          (d\<lparr>user := Some response_data,
             currentStep := currentStepIndex (status response_data),
             showResumeUpload :=
               (if falsy (status response_data) \<or> status response_data = Str ''registered''
                then True else showResumeUpload d),
             loading := False\<rparr>,
           [authAPI_getCurrentUser])
      | Inl err \<Rightarrow>
          (d\<lparr>error_d := ''Failed to load user data'', loading := False\<rparr>,
           [authAPI_getCurrentUser, console_error [ErrObj err]]))"

text \<open>
  handleResumeUploadSuccess awaits the status update and then fetchUserData, which
  catches its own errors: only a failed status update reaches the catch block.
\<close>

definition handleResumeUploadSuccess ::
  "api_error + unit \<Rightarrow> api_error + user_record \<Rightarrow> dashboard \<Rightarrow> dashboard \<times> call list" where
  "handleResumeUploadSuccess updated fetched d =
     (case updated of
        Inr _ \<Rightarrow>
          (let (d', calls) = fetchUserData fetched (d\<lparr>showResumeUpload := False\<rparr>)
           in (d', authAPI_updateStatus ''uploaded_resume'' # calls))
      | Inl err \<Rightarrow>
          (d, [authAPI_updateStatus ''uploaded_resume'',
               console_error [Text ''Failed to update status:'', ErrObj err]]))"

definition isOnboardingComplete :: "dashboard \<Rightarrow> bool" where
  "isOnboardingComplete d =
     (case user d of
        None \<Rightarrow> False
      | Some u \<Rightarrow> status u = Str ''completed_onboarding'')"

subsection \<open>The stepper and its buttons\<close>

record onboarding_step =
  label :: string
  step_status :: string
  description :: string

definition onboardingSteps :: "onboarding_step list" where
  "onboardingSteps =
     [\<lparr>label = ''Create profile, upload resume'',
       step_status = ''uploaded_resume'',
       description = []\<rparr>,
      \<lparr>label = ''Schedule intake call'',
       step_status = ''scheduled_intake'',
       description =
         ''This is a 30-45 minute call to discuss your search and help us connect '' @
         ''you with roles of interest. Just bring yourself!''\<rparr>,
      \<lparr>label = ''Complete Clifton Strengths assessment'',
       step_status = ''completed_assessment'',
       description =
         ''A comprehensive strengths assessment tool to help understand your culture '' @
         ''and personality. A prepaid link has been sent to your email. '' @
         ''Takes about 30-45 minutes.''\<rparr>,
      \<lparr>label = ''Upload Clifton Strengths results'',
       step_status = ''uploaded_results'',
       description =
         ''Upload your completed Clifton Strengths Assessment results so we can '' @
         ''start matching you with opportunities!''\<rparr>,
      \<lparr>label = ''Schedule follow-up call'',
       step_status = ''completed_onboarding'',
       description = []\<rparr>]"

text \<open>A button inside a step: its caption and, when it is a link, its target.\<close>

record button =
  caption :: string
  href :: "string option"

text \<open>The children of StepContent for the step at position index.\<close>

definition stepContent :: "nat \<Rightarrow> step_value \<Rightarrow> button list" where
  "stepContent index cur =
     (if StepNum index = cur \<and> index = 1
      then [\<lparr>caption = ''Schedule Call'', href = Some ''https://calendly.com/your-link''\<rparr>]
      else []) @
     (if StepNum index = cur \<and> index = 2
      then [\<lparr>caption = ''Take Assessment'',
             href = Some ''https://www.gallup.com/cliftonstrengths''\<rparr>]
      else []) @
     (if StepNum index = cur \<and> index = 3
      then [\<lparr>caption = ''Upload Results'', href = None\<rparr>]
      else []) @
     (if StepNum index = cur \<and> index = 4
      then [\<lparr>caption = ''Schedule Follow-up'',
             href = Some ''https://calendly.com/your-link''\<rparr>]
      else [])"

definition stepperButtons :: "step_value \<Rightarrow> button list" where
  "stepperButtons cur =
     concat (map (\<lambda>index. stepContent index cur) [0..<length onboardingSteps])"

text \<open>
  What the dashboard renders of them: nothing while loading or when error is set, and
  the stepper only when onboarding is not complete and the upload form is not shown.
\<close>

definition stepButtons :: "dashboard \<Rightarrow> button list" where
  "stepButtons d =
     (if loading d \<or> error_d d \<noteq> [] then []
      else if \<not> isOnboardingComplete d \<and> \<not> showResumeUpload d
      then stepperButtons (currentStep d)
      else [])"

section \<open>The dashboard together with its upload form\<close>

text \<open>
  The dashboard renders \<^verbatim>\<open><ResumeUpload onSuccess={handleResumeUploadSuccess} />\<close> when it
  is neither loading nor showing its own error and showResumeUpload is set.
\<close>

definition uploadShown :: "dashboard \<Rightarrow> bool" where
  "uploadShown d = (\<not> loading d \<and> error_d d = [] \<and> showResumeUpload d)"

text \<open>
  The request of a mounted upload form settles. handleUpload's second part runs first;
  when it calls onSuccess, handleResumeUploadSuccess runs on the dashboard. A status
  update that succeeds hides the form (its state is discarded), and the form is mounted
  anew, in its initial state, if the refreshed record asks for it again. The result is
  the dashboard, the form if one is mounted, and the calls made.
\<close>

definition uploadSettled ::
  "api_error + upload_result \<Rightarrow> api_error + unit \<Rightarrow> api_error + user_record \<Rightarrow>
   dashboard \<times> upload_state \<Rightarrow> (dashboard \<times> upload_state option) \<times> call list" where
  "uploadSettled outcome updated fetched p =
     (case p of (d, s) \<Rightarrow>
        (case handleUpload_settle True outcome s of
           (s', None) \<Rightarrow> ((d, Some s'), [])
         | (s', Some response_data) \<Rightarrow>
             (case handleResumeUploadSuccess updated fetched d of
                (d', calls) \<Rightarrow>
                  ((d',
                    (case updated of
                       Inl _ \<Rightarrow> Some s'
                     | Inr _ \<Rightarrow> if uploadShown d' then Some initial_upload else None)),
                   calls))))"

text \<open>
  The error alerts on the page: the dashboard's own (which replaces the page) or the one
  inside the upload form.
\<close>

definition shownErrors :: "dashboard \<times> upload_state option \<Rightarrow> string list" where
  "shownErrors p =
     (case p of (d, u) \<Rightarrow>
        if loading d then []
        else if error_d d \<noteq> [] then [error_d d]
        else (case u of
                None \<Rightarrow> []
              | Some s \<Rightarrow>
                  (case error s of
                     None \<Rightarrow> []
                   | Some e \<Rightarrow> if e \<noteq> [] then [e] else [])))"


section \<open>Properties of the file validation\<close>

lemma units_literals:
  "units ''.pdf'' = [46, 112, 100, 102]" "units ''.doc'' = [46, 100, 111, 99]"
  "units ''.docx'' = [46, 100, 111, 99, 120]"
  "units ''pdf'' = [112, 100, 102]" "units ''doc'' = [100, 111, 99]"
  "units ''docx'' = [100, 111, 99, 120]"
  "units ''resume.PDF'' = [114, 101, 115, 117, 109, 101, 46, 80, 68, 70]"
  "units ''resume.pdf'' = [114, 101, 115, 117, 109, 101, 46, 112, 100, 102]"
  "units ''resume.txt'' = [114, 101, 115, 117, 109, 101, 46, 116, 120, 116]"
  "units ''resumepdf'' = [114, 101, 115, 117, 109, 101, 112, 100, 102]"
  "units ''notes.txt'' = [110, 111, 116, 101, 115, 46, 116, 120, 116]"
  "units ''cv.pdf'' = [99, 118, 46, 112, 100, 102]"
  "units ''cv.docx'' = [99, 118, 46, 100, 111, 99, 120]"
  by (simp_all add: units_def)

lemma allowedTypes_units:
  "allowedTypes = [[46, 112, 100, 102], [46, 100, 111, 99], [46, 100, 111, 99, 120]]"
  by (simp add: allowedTypes_def units_literals)

lemma firstIndex_absent: "c \<notin> set xs \<Longrightarrow> firstIndex xs c = None"
  by (induction xs) auto

lemma firstIndex_hit: "c \<notin> set xs \<Longrightarrow> firstIndex (xs @ c # ys) c = Some (length xs)"
  by (induction xs) auto

lemma lastIndexOf_absent: "c \<notin> set s \<Longrightarrow> lastIndexOf s c = - 1"
  by (simp add: lastIndexOf_def firstIndex_absent)

lemma lastIndexOf_last:
  assumes "c \<notin> set e"
  shows "lastIndexOf (stem @ c # e) c = int (length stem)"
proof -
  have "firstIndex (rev (stem @ c # e)) c = Some (length e)"
    using assms firstIndex_hit [of c "rev e" "rev stem"] by simp
  then show ?thesis
    by (simp add: lastIndexOf_def)
qed

lemma toLowerUnit_dot: "toLowerUnit ucd 46 = [46]"
  by (simp add: toLowerUnit_def)

lemma toLowerUnit_length: "1 \<le> length (toLowerUnit ucd u)"
  by (simp add: toLowerUnit_def)

lemma toLowerCase_append:
  "toLowerCase ucd (xs @ ys) = toLowerCase ucd xs @ toLowerCase ucd ys"
  by (simp add: toLowerCase_def)

lemma toLowerCase_Cons: "toLowerCase ucd (x # xs) = toLowerUnit ucd x @ toLowerCase ucd xs"
  by (simp add: toLowerCase_def)

lemma toLowerCase_Nil: "toLowerCase ucd [] = []"
  by (simp add: toLowerCase_def)

lemma toLowerCase_longer: "length s \<le> length (toLowerCase ucd s)"
proof (induction s)
  case Nil
  show ?case by (simp add: toLowerCase_Nil)
next
  case (Cons u s)
  have "1 \<le> length (toLowerUnit ucd u)" by (rule toLowerUnit_length)
  with Cons show ?case by (simp add: toLowerCase_Cons)
qed

lemma toLowerCase_same_length:
  "304 \<notin> set s \<Longrightarrow> length (toLowerCase ucd s) = length s"
  by (induction s) (simp_all add: toLowerCase_Nil toLowerCase_Cons toLowerUnit_def)

lemma fileExtension_dotless:
  assumes "46 \<notin> set (name f)"
  shows "length (fileExtension ucd f) \<le> 1"
  using assms
  by (simp add: fileExtension_def lastIndexOf_absent substr_def Let_def)

lemma fileExtension_dotted:
  assumes "name f = stem @ 46 # e" and "46 \<notin> set e"
  shows "fileExtension ucd f =
    drop (length stem) (toLowerCase ucd stem) @ 46 # toLowerCase ucd e"
proof -
  have idx: "lastIndexOf (name f) 46 = int (length stem)"
    using assms by (simp add: lastIndexOf_last)
  have low: "toLowerCase ucd (name f) = toLowerCase ucd stem @ 46 # toLowerCase ucd e"
    using assms(1) by (simp add: toLowerCase_append toLowerCase_Cons toLowerUnit_dot)
  have len: "length stem \<le> length (toLowerCase ucd stem)"
    by (rule toLowerCase_longer)
  then show ?thesis
    by (simp add: fileExtension_def idx low substr_def Let_def min_def)
qed

lemma spec_extension_dotted:
  assumes "46 \<notin> set e"
  shows "spec_extension (stem @ 46 # e) = Some e"
proof -
  have "takeWhile (\<lambda>c. c \<noteq> 46) (rev e @ 46 # rev stem) = rev e"
    using assms by (auto simp add: takeWhile_tail takeWhile_eq_all_conv)
  then show ?thesis
    by (simp add: spec_extension_def)
qed

lemma short_not_allowed: "length x \<le> 1 \<Longrightarrow> x \<notin> set allowedTypes"
  by (auto simp add: allowedTypes_units)

lemma allowed_one_dot:
  "x # xs \<in> set allowedTypes \<Longrightarrow> x = 46 \<and> 46 \<notin> set xs"
  by (auto simp add: allowedTypes_units)

lemma allowed_tail:
  "46 # xs \<in> set allowedTypes \<longleftrightarrow> xs \<in> {units ''pdf'', units ''doc'', units ''docx''}"
  by (auto simp add: allowedTypes_units units_literals)

lemma accepted_spec_allowed:
  assumes "fileExtension ucd f \<in> set allowedTypes"
  shows "spec_allowed ucd (name f)"
proof (cases "46 \<in> set (name f)")
  case False
  then have "length (fileExtension ucd f) \<le> 1"
    by (rule fileExtension_dotless)
  then have "fileExtension ucd f \<notin> set allowedTypes"
    by (rule short_not_allowed)
  with assms show ?thesis by simp
next
  case True
  then obtain stem e where n: "name f = stem @ 46 # e" and e: "46 \<notin> set e"
    by (meson split_list_last)
  have ext: "fileExtension ucd f =
      drop (length stem) (toLowerCase ucd stem) @ 46 # toLowerCase ucd e"
    using n e by (rule fileExtension_dotted)
  have spec: "spec_extension (name f) = Some e"
    using e by (simp add: n spec_extension_dotted)
  show ?thesis
  proof (cases "drop (length stem) (toLowerCase ucd stem)")
    case Nil
    with ext assms have "46 # toLowerCase ucd e \<in> set allowedTypes" by simp
    then show ?thesis
      by (simp add: allowed_tail spec_allowed_def spec)
  next
    case (Cons x xs)
    with ext assms have "x # (xs @ 46 # toLowerCase ucd e) \<in> set allowedTypes" by simp
    then have "46 \<notin> set (xs @ 46 # toLowerCase ucd e)"
      using allowed_one_dot by blast
    then show ?thesis by simp
  qed
qed

lemma allowed_extension_iff:
  assumes "304 \<notin> set (name f)"
  shows "fileExtension ucd f \<in> set allowedTypes \<longleftrightarrow> spec_allowed ucd (name f)"
proof
  assume "fileExtension ucd f \<in> set allowedTypes"
  then show "spec_allowed ucd (name f)" by (rule accepted_spec_allowed)
next
  assume sa: "spec_allowed ucd (name f)"
  then have "46 \<in> set (name f)"
    by (auto simp add: spec_allowed_def spec_extension_def split: if_splits)
  then obtain stem e where n: "name f = stem @ 46 # e" and e: "46 \<notin> set e"
    by (meson split_list_last)
  have "304 \<notin> set stem" using assms n by simp
  then have "drop (length stem) (toLowerCase ucd stem) = []"
    by (simp add: toLowerCase_same_length)
  then have ext: "fileExtension ucd f = 46 # toLowerCase ucd e"
    using fileExtension_dotted [OF n e, of ucd] by simp
  have "spec_extension (name f) = Some e"
    using e by (simp add: n spec_extension_dotted)
  with sa show "fileExtension ucd f \<in> set allowedTypes"
    by (simp add: ext allowed_tail spec_allowed_def)
qed

lemma validateFile_Some:
  "validateFile ucd (Some f) =
     (if fileExtension ucd f \<notin> set allowedTypes then Inl UNSUPPORTED_TYPE
      else if 10485760 < size_f f then Inl TOO_LARGE
      else Inr ())"
  by (simp add: validateFile_def)

lemma fileExtension_examples:
  "fileExtension ucd \<lparr>name = units ''resume.PDF'', size_f = n\<rparr> = units ''.pdf''"
  "fileExtension ucd \<lparr>name = units ''resume.pdf'', size_f = n\<rparr> = units ''.pdf''"
  "fileExtension ucd \<lparr>name = units ''resume.txt'', size_f = n\<rparr> = [46, 116, 120, 116]"
  "fileExtension ucd \<lparr>name = units ''resumepdf'', size_f = n\<rparr> = [102]"
  "fileExtension ucd \<lparr>name = units ''notes.txt'', size_f = n\<rparr> = [46, 116, 120, 116]"
  "fileExtension ucd \<lparr>name = units ''cv.pdf'', size_f = n\<rparr> = units ''.pdf''"
  "fileExtension ucd \<lparr>name = units ''cv.docx'', size_f = n\<rparr> = units ''.docx''"
  "fileExtension ucd \<lparr>name = [304, 46, 112, 100, 102], size_f = n\<rparr> = [775, 46, 112, 100, 102]"
  by (simp_all add: fileExtension_def units_literals lastIndexOf_def substr_def
      toLowerCase_def toLowerUnit_def)

lemma spec_allowed_dotted_I: "spec_allowed ucd [304, 46, 112, 100, 102]"
  by (simp add: spec_allowed_def spec_extension_def toLowerCase_def toLowerUnit_def
      units_literals)


lemma validateFile_examples:
  "validateFile ucd (Some \<lparr>name = units ''resume.PDF'', size_f = 1024\<rparr>) = Inr ()"
  "validateFile ucd (Some \<lparr>name = units ''resume.txt'', size_f = 1024\<rparr>) = Inl UNSUPPORTED_TYPE"
  "validateFile ucd (Some \<lparr>name = units ''resumepdf'', size_f = n\<rparr>) = Inl UNSUPPORTED_TYPE"
  "validateFile ucd (Some \<lparr>name = units ''notes.txt'', size_f = n\<rparr>) = Inl UNSUPPORTED_TYPE"
  "validateFile ucd (Some \<lparr>name = units ''cv.pdf'', size_f = 10\<rparr>) = Inr ()"
  "validateFile ucd (Some \<lparr>name = units ''cv.docx'', size_f = 10\<rparr>) = Inr ()"
  "validateFile ucd (Some \<lparr>name = units ''resume.pdf'', size_f = 10485761\<rparr>) = Inl TOO_LARGE"
  "validateFile ucd (Some \<lparr>name = units ''resume.pdf'', size_f = 10485760\<rparr>) = Inr ()"
  unfolding validateFile_Some fileExtension_examples
  by (simp_all add: allowedTypes_units units_literals)

text \<open>
  For a name without the code unit 304 the cut falls on the last full stop, and the
  validation is the one the specification describes: the extension decides between
  UNSUPPORTED_TYPE and the size test, and the size test has its limit at 10485760 bytes.
\<close>

lemma validateFile_size_limit:
  assumes "304 \<notin> set (name f)" and "spec_allowed ucd (name f)"
  shows "validateFile ucd (Some f) = Inl TOO_LARGE \<longleftrightarrow> 10485760 < size_f f"
    and "validateFile ucd (Some f) = Inr () \<longleftrightarrow> size_f f \<le> 10485760"
  using assms allowed_extension_iff [of f ucd]
  by (auto simp add: validateFile_Some)

text \<open>
  Claim C4. validateFile fails with UNSUPPORTED_TYPE unless the part of the file name
  after its last full stop, in lower case, is one of pdf, doc and docx; a name without a
  full stop is rejected whatever the size. For a name without the code unit 304 this is
  the only reason for UNSUPPORTED_TYPE. resume.PDF is accepted, resume.txt and resumepdf
  are rejected.
\<close>

theorem validateFile_unsupported_type:
  "(\<not> spec_allowed ucd (name f) \<longrightarrow> validateFile ucd (Some f) = Inl UNSUPPORTED_TYPE)
   \<and> (46 \<notin> set (name f) \<longrightarrow> validateFile ucd (Some f) = Inl UNSUPPORTED_TYPE)
   \<and> (304 \<notin> set (name f) \<longrightarrow>
        (validateFile ucd (Some f) = Inl UNSUPPORTED_TYPE \<longleftrightarrow> \<not> spec_allowed ucd (name f)))
   \<and> validateFile ucd (Some \<lparr>name = units ''resume.PDF'', size_f = 1024\<rparr>) = Inr ()
   \<and> validateFile ucd (Some \<lparr>name = units ''resume.txt'', size_f = 1024\<rparr>)
       = Inl UNSUPPORTED_TYPE
   \<and> validateFile ucd (Some \<lparr>name = units ''resumepdf'', size_f = 1024\<rparr>)
       = Inl UNSUPPORTED_TYPE"
proof -
  have refused: "\<not> spec_allowed ucd (name f) \<longrightarrow> validateFile ucd (Some f) = Inl UNSUPPORTED_TYPE"
    using accepted_spec_allowed [of ucd f] by (auto simp add: validateFile_Some)
  have "46 \<notin> set (name f) \<longrightarrow> \<not> spec_allowed ucd (name f)"
    by (simp add: spec_allowed_def spec_extension_def)
  with refused
  have dotless: "46 \<notin> set (name f) \<longrightarrow> validateFile ucd (Some f) = Inl UNSUPPORTED_TYPE"
    by blast
  have exact: "304 \<notin> set (name f) \<longrightarrow>
      (validateFile ucd (Some f) = Inl UNSUPPORTED_TYPE \<longleftrightarrow> \<not> spec_allowed ucd (name f))"
    using allowed_extension_iff [of f ucd] by (auto simp add: validateFile_Some)
  show ?thesis
    using refused dotless exact validateFile_examples(1) [of ucd]
      validateFile_examples(2) [of ucd] validateFile_examples(3) [of ucd 1024]
    by blast
qed

theorem validateFile_unsupported_type_witness:
  "46 \<notin> set (units ''resumepdf'')
   \<and> 304 \<notin> set (units ''resumepdf'')
   \<and> \<not> spec_allowed caseless (units ''resumepdf'')
   \<and> validateFile caseless (Some \<lparr>name = units ''resumepdf'', size_f = 99999999\<rparr>)
       = Inl UNSUPPORTED_TYPE"
proof -
  have dotless: "46 \<notin> set (units ''resumepdf'')"
    by (simp add: units_literals)
  have plain: "304 \<notin> set (units ''resumepdf'')"
    by (simp add: units_literals)
  have other: "\<not> spec_allowed caseless (units ''resumepdf'')"
    using dotless by (simp add: spec_allowed_def spec_extension_def)
  show ?thesis
    using dotless plain other
      validateFile_unsupported_type
        [of caseless "\<lparr>name = units ''resumepdf'', size_f = 99999999\<rparr>"]
    by simp
qed

text \<open>
  Claim C5 at the file name made of the capital I with a dot above, a full stop and pdf
  (code units 304, 46, 112, 100, 102). Its extension is pdf, an allowed one. The last
  full stop is at position 1 of the name, but lower-casing puts two code units in front
  of it, so the cut keeps the combining dot with the extension and the file is refused
  with UNSUPPORTED_TYPE: at 10485761 bytes, where the claim says TOO_LARGE, and at
  10485760 bytes, where the claim says it is accepted.
\<close>

theorem validateFile_dotted_capital_I:
  "spec_allowed ucd [304, 46, 112, 100, 102]
   \<and> lastIndexOf [304, 46, 112, 100, 102] 46 = 1
   \<and> toLowerCase ucd [304, 46, 112, 100, 102] = [105, 775, 46, 112, 100, 102]
   \<and> fileExtension ucd \<lparr>name = [304, 46, 112, 100, 102], size_f = n\<rparr>
       = [775, 46, 112, 100, 102]
   \<and> validateFile ucd (Some \<lparr>name = [304, 46, 112, 100, 102], size_f = 10485761\<rparr>)
       = Inl UNSUPPORTED_TYPE
   \<and> validateFile ucd (Some \<lparr>name = [304, 46, 112, 100, 102], size_f = 10485760\<rparr>)
       = Inl UNSUPPORTED_TYPE"
  by (simp add: spec_allowed_dotted_I fileExtension_examples validateFile_Some
      allowedTypes_units lastIndexOf_def toLowerCase_def toLowerUnit_def)


section \<open>Properties of the upload component\<close>

lemma validateFile_Inr_Some: "validateFile ucd c = Inr u \<Longrightarrow> c \<noteq> None"
  by (cases c) (simp_all add: validateFile_def)

lemma uploadErrorText_cases:
  "uploadErrorText err =
     (if truthy (detail err) then detail err
      else if truthy (message err) then message err
      else Some ''Something went wrong'')"
  by (simp add: uploadErrorText_def js_or_def)

lemma uploadErrorText_truthy: "truthy (uploadErrorText err)"
  by (simp add: uploadErrorText_cases) (simp add: truthy_def)

text \<open>
  Claim C7, as the code has it. When validation fails, handleFileSelect stores the
  validation message and changes nothing else: no file is staged by the call, and a file
  staged before stays staged. When validation succeeds, the candidate becomes the staged
  file and the error is cleared (and, in the version with a result screen, the result).
\<close>

theorem handleFileSelect_effect:
  "(validateFile ucd c = Inl e \<longrightarrow>
      handleFileSelect ucd c s = s\<lparr>error := Some (error_text e)\<rparr>
      \<and> file_s (handleFileSelect ucd c s) = file_s s
      \<and> handleFileSelect_r ucd c r = r\<lparr>error := Some (error_text e)\<rparr>
      \<and> file_s (handleFileSelect_r ucd c r) = file_s r
      \<and> result (handleFileSelect_r ucd c r) = result r)
   \<and> (validateFile ucd c = Inr () \<longrightarrow>
      c \<noteq> None
      \<and> handleFileSelect ucd c s = s\<lparr>file_s := c, error := None\<rparr>
      \<and> handleFileSelect_r ucd c r = r\<lparr>file_s := c, error := None, result := None\<rparr>)"
  by (auto simp add: handleFileSelect_def handleFileSelect_r_def dest: validateFile_Inr_Some)

theorem handleFileSelect_effect_witness:
  "validateFile caseless (Some \<lparr>name = units ''notes.txt'', size_f = 10\<rparr>)
     = Inl UNSUPPORTED_TYPE
   \<and> handleFileSelect caseless (Some \<lparr>name = units ''notes.txt'', size_f = 10\<rparr>) initial_upload =
       initial_upload\<lparr>error := Some ''Please upload a PDF, DOC, or DOCX file''\<rparr>
   \<and> validateFile caseless (Some \<lparr>name = units ''cv.docx'', size_f = 10\<rparr>) = Inr ()
   \<and> handleFileSelect_r caseless (Some \<lparr>name = units ''cv.docx'', size_f = 10\<rparr>)
       initial_upload_r =
       initial_upload_r\<lparr>file_s := Some \<lparr>name = units ''cv.docx'', size_f = 10\<rparr>,
         error := None, result := None\<rparr>"
proof -
  have bad: "validateFile caseless (Some \<lparr>name = units ''notes.txt'', size_f = 10\<rparr>)
      = Inl UNSUPPORTED_TYPE"
    by (rule validateFile_examples)
  have good: "validateFile caseless (Some \<lparr>name = units ''cv.docx'', size_f = 10\<rparr>) = Inr ()"
    by (rule validateFile_examples)
  show ?thesis
    using bad good
      handleFileSelect_effect [of caseless "Some \<lparr>name = units ''notes.txt'', size_f = 10\<rparr>"
        UNSUPPORTED_TYPE initial_upload initial_upload_r]
      handleFileSelect_effect [of caseless "Some \<lparr>name = units ''cv.docx'', size_f = 10\<rparr>"
        UNSUPPORTED_TYPE initial_upload initial_upload_r]
    by simp
qed

text \<open>
  Claim C7 as stated fails: a text file is refused while cv.pdf is staged, and cv.pdf is
  still staged afterwards.
\<close>

theorem handleFileSelect_keeps_staged_file:
  "validateFile caseless (Some \<lparr>name = units ''notes.txt'', size_f = 10\<rparr>)
     = Inl UNSUPPORTED_TYPE
   \<and> file_s (handleFileSelect caseless (Some \<lparr>name = units ''notes.txt'', size_f = 10\<rparr>)
        \<lparr>file_s = Some \<lparr>name = units ''cv.pdf'', size_f = 10\<rparr>, uploading = False,
         error = None, dragActive = False\<rparr>)
     = Some \<lparr>name = units ''cv.pdf'', size_f = 10\<rparr>"
proof -
  have bad: "validateFile caseless (Some \<lparr>name = units ''notes.txt'', size_f = 10\<rparr>)
      = Inl UNSUPPORTED_TYPE"
    by (rule validateFile_examples)
  then show ?thesis
    by (simp add: handleFileSelect_def)
qed

text \<open>
  Claim C8. When the request of handleUpload fails, the error becomes the detail of the
  response body if that is a non-empty string, else the message of the error if that is
  non-empty, else the text Something went wrong; uploading is reset and the staged file
  is the one staged before. With a file staged, the upload button is enabled again and a
  click sends that file, with no new selection.
\<close>

theorem handleUpload_failure:
  "handleUpload_settle cb (Inl err) s = (s\<lparr>error := uploadErrorText err, uploading := False\<rparr>, None)
   \<and> handleUpload_settle_r (Inl err) r = r\<lparr>error := uploadErrorText err, uploading := False\<rparr>
   \<and> uploadErrorText err =
        (if truthy (detail err) then detail err
         else if truthy (message err) then message err
         else Some ''Something went wrong'')
   \<and> truthy (uploadErrorText err)
   \<and> file_s (fst (handleUpload_settle cb (Inl err) s)) = file_s s
   \<and> file_s (handleUpload_settle_r (Inl err) r) = file_s r
   \<and> (file_s s = Some f \<longrightarrow>
        clickUpload (fst (handleUpload_settle cb (Inl err) s)) =
          (s\<lparr>uploading := True, error := None\<rparr>, [resumeAPI_upload f]))
   \<and> (file_s r = Some f \<and> result r = None \<longrightarrow>
        clickUpload_r (handleUpload_settle_r (Inl err) r) =
          (r\<lparr>uploading := True, error := None\<rparr>, [resumeAPI_upload f]))"
  using uploadErrorText_cases [of err] uploadErrorText_truthy [of err]
  by (simp add: handleUpload_settle_def handleUpload_settle_r_def clickUpload_def
      clickUpload_on_def clickUpload_r_def clickUpload_r_on_def uploadDisabled_def
      handleUpload_begin_def)

theorem handleUpload_failure_witness:
  "file_s (initial_upload\<lparr>file_s := Some \<lparr>name = units ''cv.pdf'', size_f = 10\<rparr>,
       uploading := True\<rparr>)
     = Some \<lparr>name = units ''cv.pdf'', size_f = 10\<rparr>
   \<and> clickUpload (fst (handleUpload_settle True
         (Inl \<lparr>detail = None, message = Some ''Network Error''\<rparr>)
         (initial_upload\<lparr>file_s := Some \<lparr>name = units ''cv.pdf'', size_f = 10\<rparr>,
            uploading := True\<rparr>)))
     = (initial_upload\<lparr>file_s := Some \<lparr>name = units ''cv.pdf'', size_f = 10\<rparr>,
            uploading := True\<rparr>
          \<lparr>uploading := True, error := None\<rparr>,
        [resumeAPI_upload \<lparr>name = units ''cv.pdf'', size_f = 10\<rparr>])"
proof -
  have staged:
    "file_s (initial_upload\<lparr>file_s := Some \<lparr>name = units ''cv.pdf'', size_f = 10\<rparr>,
         uploading := True\<rparr>)
       = Some \<lparr>name = units ''cv.pdf'', size_f = 10\<rparr>"
    by simp
  show ?thesis
    using staged handleUpload_failure
      [of True "\<lparr>detail = None, message = Some ''Network Error''\<rparr>"
        "initial_upload\<lparr>file_s := Some \<lparr>name = units ''cv.pdf'', size_f = 10\<rparr>,
           uploading := True\<rparr>"
        initial_upload_r "\<lparr>name = units ''cv.pdf'', size_f = 10\<rparr>"]
    by blast
qed

text \<open>
  Claim C10. Whenever the request of handleUpload settles, fulfilled or rejected,
  uploading is reset. After a rejected request the upload button is disabled only if no
  file is staged, so a further upload is not held back by the earlier one.
\<close>

theorem handleUpload_resets_uploading:
  "\<not> uploading (fst (handleUpload_settle cb outcome s))
   \<and> \<not> uploading (handleUpload_settle_r outcome r)
   \<and> uploadDisabled (fst (handleUpload_settle cb (Inl err) s)) = (file_s s = None)
   \<and> uploadDisabled (handleUpload_settle_r (Inl err) r) = (file_s r = None)"
  by (cases outcome)
    (simp_all add: handleUpload_settle_def handleUpload_settle_r_def uploadDisabled_def)

subsection \<open>Single flight and the renders of the form\<close>

lemma handleFileSelect_uploading: "uploading (handleFileSelect ucd c s) = uploading s"
  by (simp add: handleFileSelect_def split: sum.splits)

lemma handleDrop_uploading: "uploading (handleDrop ucd files s) = uploading s"
  by (simp add: handleDrop_def handleFileSelect_uploading split: list.splits)

lemma handleDrag_uploading: "uploading (handleDrag etype s) = uploading s"
  by (simp add: handleDrag_def)

lemma clickDelete_uploading: "uploading (clickDelete r s) = uploading s"
  by (simp add: clickDelete_def)

lemma clickUpload_on_cases:
  "clickUpload_on r s =
     (case file_s r of
        None \<Rightarrow> (s, [])
      | Some f \<Rightarrow>
          if uploading r then (s, [])
          else (s\<lparr>uploading := True, error := None\<rparr>, [resumeAPI_upload f]))"
  by (simp add: clickUpload_on_def uploadDisabled_def handleUpload_begin_def
      split: option.splits)

lemma settle_uploading: "\<not> uploading (fst (handleUpload_settle cb outcome s))"
  by (simp add: handleUpload_settle_def split: sum.splits)

text \<open>An event other than a click on the upload button keeps single flight.\<close>

lemma step_single_flight:
  assumes "single_flight y" and "e \<noteq> Click"
  shows "single_flight (step ucd cb e y)"
proof (cases e)
  case (Pick c)
  with assms show ?thesis
    by (simp add: single_flight_def handleFileSelect_uploading)
next
  case (Drag etype)
  with assms show ?thesis
    by (simp add: single_flight_def handleDrag_uploading)
next
  case (Drop files)
  with assms show ?thesis
    by (simp add: single_flight_def handleDrop_uploading)
next
  case Delete
  with assms show ?thesis
    by (simp add: single_flight_def clickDelete_uploading)
next
  case Click
  with assms show ?thesis by simp
next
  case (Settle i outcome)
  show ?thesis
  proof (cases "i < length (inflight y)")
    case False
    with assms Settle show ?thesis by simp
  next
    case True
    with assms have "length (inflight y) = 1" and "i = 0"
      by (simp_all add: single_flight_def)
    with Settle show ?thesis
      by (simp add: single_flight_def settle_uploading)
  qed
next
  case Render
  with assms show ?thesis
    by (simp add: single_flight_def)
qed

text \<open>So does a click on the upload button that comes right after a render.\<close>

lemma rendered_click_single_flight:
  assumes "single_flight y"
  shows "single_flight (step ucd cb Click (step ucd cb Render y))"
proof (cases "file_s (form y)")
  case None
  with assms show ?thesis
    by (simp add: clickUpload_on_cases single_flight_def)
next
  case (Some f)
  show ?thesis
  proof (cases "uploading (form y)")
    case True
    with assms Some show ?thesis
      by (simp add: clickUpload_on_cases single_flight_def)
  next
    case False
    with assms have "inflight y = []"
      by (simp add: single_flight_def)
    with Some False show ?thesis
      by (simp add: clickUpload_on_cases single_flight_def)
  qed
qed

lemma run_single_flight:
  "single_flight y \<Longrightarrow> single_flight (run ucd cb (rendered_clicks es) y)"
proof (induction es arbitrary: y)
  case Nil
  then show ?case by simp
next
  case (Cons e es)
  show ?case
  proof (cases "e = Click")
    case True
    have "single_flight (step ucd cb Click (step ucd cb Render y))"
      using Cons.prems by (rule rendered_click_single_flight)
    then have "single_flight
        (run ucd cb (rendered_clicks es) (step ucd cb Click (step ucd cb Render y)))"
      by (rule Cons.IH)
    with True show ?thesis by simp
  next
    case False
    have "single_flight (step ucd cb e y)"
      using Cons.prems False by (rule step_single_flight)
    then have "single_flight (run ucd cb (rendered_clicks es) (step ucd cb e y))"
      by (rule Cons.IH)
    moreover have "rendered_clicks (e # es) = e # rendered_clicks es"
      using False by (cases e) simp_all
    ultimately show ?thesis by simp
  qed
qed

lemma single_flight_initial: "single_flight initial_system"
  by (simp add: single_flight_def initial_system_def initial_upload_def)

text \<open>
  Claim C1, as the code has it. The upload button of a render that shows uploading is
  disabled: a click on it changes nothing and sends nothing, whatever the hooks have
  become. If the component renders before every click on the upload button, at most one
  upload is in flight at any time, whatever else the user does with the form, and two
  clicks on a form with a staged file send that file once. handleUpload itself does not
  look at uploading, so nothing is promised for clicks that are not separated by a
  render.
\<close>

theorem clickUpload_single_flight:
  "single_flight (run ucd cb (rendered_clicks es) initial_system)
   \<and> (uploading r \<longrightarrow> clickUpload_on r s = (s, []))
   \<and> (uploading r' \<longrightarrow> clickUpload_r_on r' s' = (s', []))
   \<and> (file_s (form y) = Some f \<and> \<not> uploading (form y) \<longrightarrow>
        sent (run ucd cb (rendered_clicks [Click, Click]) y) = sent y @ [resumeAPI_upload f]
        \<and> inflight (run ucd cb (rendered_clicks [Click, Click]) y) = inflight y @ [f])"
proof -
  have "single_flight (run ucd cb (rendered_clicks es) initial_system)"
    by (rule run_single_flight [OF single_flight_initial])
  moreover have "uploading r \<longrightarrow> clickUpload_on r s = (s, [])"
    by (simp add: clickUpload_on_def uploadDisabled_def)
  moreover have "uploading r' \<longrightarrow> clickUpload_r_on r' s' = (s', [])"
    by (simp add: clickUpload_r_on_def uploadDisabled_def)
  moreover have "file_s (form y) = Some f \<and> \<not> uploading (form y) \<longrightarrow>
      sent (run ucd cb (rendered_clicks [Click, Click]) y) = sent y @ [resumeAPI_upload f]
      \<and> inflight (run ucd cb (rendered_clicks [Click, Click]) y) = inflight y @ [f]"
    by (simp add: clickUpload_on_cases)
  ultimately show ?thesis by blast
qed

theorem clickUpload_single_flight_witness:
  "uploading (initial_upload\<lparr>uploading := True\<rparr>)
   \<and> clickUpload_on (initial_upload\<lparr>uploading := True\<rparr>)
       (initial_upload\<lparr>file_s := Some \<lparr>name = units ''cv.pdf'', size_f = 10\<rparr>\<rparr>)
     = (initial_upload\<lparr>file_s := Some \<lparr>name = units ''cv.pdf'', size_f = 10\<rparr>\<rparr>, [])
   \<and> uploading (initial_upload_r\<lparr>uploading := True\<rparr>)
   \<and> clickUpload_r_on (initial_upload_r\<lparr>uploading := True\<rparr>) initial_upload_r
     = (initial_upload_r, [])
   \<and> file_s (form (initial_system
        \<lparr>form := initial_upload\<lparr>file_s := Some \<lparr>name = units ''cv.pdf'', size_f = 10\<rparr>\<rparr>\<rparr>))
     = Some \<lparr>name = units ''cv.pdf'', size_f = 10\<rparr>
   \<and> sent (run caseless True (rendered_clicks [Click, Click])
        (initial_system
          \<lparr>form := initial_upload\<lparr>file_s := Some \<lparr>name = units ''cv.pdf'', size_f = 10\<rparr>\<rparr>\<rparr>))
     = [resumeAPI_upload \<lparr>name = units ''cv.pdf'', size_f = 10\<rparr>]
   \<and> single_flight (run caseless True
        (rendered_clicks [Pick (Some \<lparr>name = units ''cv.pdf'', size_f = 10\<rparr>), Click, Click])
        initial_system)"
proof -
  have busy: "uploading (initial_upload\<lparr>uploading := True\<rparr>)"
    and busy_r: "uploading (initial_upload_r\<lparr>uploading := True\<rparr>)"
    by simp_all
  have staged: "file_s (form (initial_system
        \<lparr>form := initial_upload\<lparr>file_s := Some \<lparr>name = units ''cv.pdf'', size_f = 10\<rparr>\<rparr>\<rparr>))
      = Some \<lparr>name = units ''cv.pdf'', size_f = 10\<rparr>"
    and idle: "\<not> uploading (form (initial_system
        \<lparr>form := initial_upload\<lparr>file_s := Some \<lparr>name = units ''cv.pdf'', size_f = 10\<rparr>\<rparr>\<rparr>))"
    and none_sent: "sent (initial_system
        \<lparr>form := initial_upload\<lparr>file_s := Some \<lparr>name = units ''cv.pdf'', size_f = 10\<rparr>\<rparr>\<rparr>) = []"
    by (simp_all add: initial_system_def initial_upload_def)
  show ?thesis
    using busy busy_r staged idle none_sent
      clickUpload_single_flight
        [of caseless True
          "[Pick (Some \<lparr>name = units ''cv.pdf'', size_f = 10\<rparr>), Click, Click]"
          "initial_upload\<lparr>uploading := True\<rparr>"
          "initial_upload\<lparr>file_s := Some \<lparr>name = units ''cv.pdf'', size_f = 10\<rparr>\<rparr>"
          "initial_upload_r\<lparr>uploading := True\<rparr>" initial_upload_r
          "initial_system
            \<lparr>form := initial_upload\<lparr>file_s := Some \<lparr>name = units ''cv.pdf'', size_f = 10\<rparr>\<rparr>\<rparr>"
          "\<lparr>name = units ''cv.pdf'', size_f = 10\<rparr>"]
    by simp
qed

text \<open>
  Claim C1 as stated fails: the user picks cv.pdf, the form renders, and two clicks reach
  the upload button before the form renders again. Both run handleUpload, the file is
  sent twice and two uploads are in flight.
\<close>

theorem two_clicks_before_render:
  "sent (run caseless True
      [Pick (Some \<lparr>name = units ''cv.pdf'', size_f = 10\<rparr>), Render, Click, Click]
      initial_system)
     = [resumeAPI_upload \<lparr>name = units ''cv.pdf'', size_f = 10\<rparr>,
        resumeAPI_upload \<lparr>name = units ''cv.pdf'', size_f = 10\<rparr>]
   \<and> inflight (run caseless True
      [Pick (Some \<lparr>name = units ''cv.pdf'', size_f = 10\<rparr>), Render, Click, Click]
      initial_system)
     = [\<lparr>name = units ''cv.pdf'', size_f = 10\<rparr>, \<lparr>name = units ''cv.pdf'', size_f = 10\<rparr>]
   \<and> uploading (form (run caseless True
      [Pick (Some \<lparr>name = units ''cv.pdf'', size_f = 10\<rparr>), Render, Click]
      initial_system))"
proof -
  have good: "validateFile caseless (Some \<lparr>name = units ''cv.pdf'', size_f = 10\<rparr>) = Inr ()"
    by (rule validateFile_examples)
  then show ?thesis
    by (simp add: initial_system_def initial_upload_def handleFileSelect_def
        clickUpload_on_cases)
qed


section \<open>Properties of the dashboard\<close>

lemma currentStepIndex_ranks:
  "currentStepIndex (Str ''registered'') = StepNum 0"
  "currentStepIndex (Str ''uploaded_resume'') = StepNum 1"
  "currentStepIndex (Str ''scheduled_intake'') = StepNum 2"
  "currentStepIndex (Str ''completed_assessment'') = StepNum 3"
  "currentStepIndex (Str ''uploaded_results'') = StepNum 4"
  "currentStepIndex (Str ''completed_onboarding'') = StepNum 5"
  by (simp_all add: currentStepIndex_def getProperty_def statusToStepMap_def)


lemma currentStepIndex_default:
  assumes "map_of statusToStepMap (propertyKey st) = None"
    and "propertyKey st \<notin> set objectPrototype"
  shows "currentStepIndex st = StepNum 0"
  using assms by (simp add: currentStepIndex_def getProperty_def)


text \<open>
  Claim C6 at the status constructor, a string outside the enumeration: the lookup finds
  the member of that name which every object inherits, the fallback to 0 is not taken,
  and the step index is not 0.
\<close>

theorem currentStepIndex_inherited_member:
  "map_of statusToStepMap ''constructor'' = None
   \<and> currentStepIndex (Str ''constructor'') = ProtoMember ''constructor''
   \<and> currentStepIndex (Str ''constructor'') \<noteq> StepNum 0"
  by (simp add: currentStepIndex_def getProperty_def statusToStepMap_def objectPrototype_def)




lemma upt_onboardingSteps: "[0..<length onboardingSteps] = [0, 1, 2, 3, 4]"
  by (simp add: onboardingSteps_def upt_rec)

text \<open>
  Claim C9. The stepper shows, for the current step 1, the link Schedule Call; for 2,
  the link Take Assessment; for 3, the button Upload Results; for 4, the link Schedule
  Follow-up; for 0 and 5, nothing. A dashboard loaded with the status uploaded_resume
  renders the first of these, one loaded with uploaded_results the last. With the status
  completed_onboarding the dashboard is complete, at step 5, and renders no step button.
\<close>

theorem stepperButtons_table:
  "stepperButtons (StepNum 0) = []
   \<and> stepperButtons (StepNum 1) =
       [\<lparr>caption = ''Schedule Call'', href = Some ''https://calendly.com/your-link''\<rparr>]
   \<and> stepperButtons (StepNum 2) =
       [\<lparr>caption = ''Take Assessment'', href = Some ''https://www.gallup.com/cliftonstrengths''\<rparr>]
   \<and> stepperButtons (StepNum 3) = [\<lparr>caption = ''Upload Results'', href = None\<rparr>]
   \<and> stepperButtons (StepNum 4) =
       [\<lparr>caption = ''Schedule Follow-up'', href = Some ''https://calendly.com/your-link''\<rparr>]
   \<and> stepperButtons (StepNum 5) = []
   \<and> stepButtons
       (fst (fetchUserData (Inr \<lparr>user_name = n, status = Str ''uploaded_resume''\<rparr>)
          initial_dashboard))
       = [\<lparr>caption = ''Schedule Call'', href = Some ''https://calendly.com/your-link''\<rparr>]
   \<and> stepButtons
       (fst (fetchUserData (Inr \<lparr>user_name = n, status = Str ''uploaded_results''\<rparr>)
          initial_dashboard))
       = [\<lparr>caption = ''Schedule Follow-up'', href = Some ''https://calendly.com/your-link''\<rparr>]
   \<and> isOnboardingComplete
       (fst (fetchUserData (Inr \<lparr>user_name = n, status = Str ''completed_onboarding''\<rparr>) d))
   \<and> currentStep
       (fst (fetchUserData (Inr \<lparr>user_name = n, status = Str ''completed_onboarding''\<rparr>) d))
       = StepNum 5
   \<and> stepButtons
       (fst (fetchUserData (Inr \<lparr>user_name = n, status = Str ''completed_onboarding''\<rparr>) d))
       = []"
  by (simp add: stepperButtons_def upt_onboardingSteps stepContent_def fetchUserData_def
      isOnboardingComplete_def stepButtons_def currentStepIndex_ranks initial_dashboard_def)

section \<open>Properties of the dashboard with its upload form\<close>

text \<open>
  Claim C3, as the code has it. When the upload is accepted and the status update fails,
  handleResumeUploadSuccess writes the failure to the console and nothing else: the
  status update was requested once, no record is fetched, the dashboard is unchanged and
  the form keeps its error as it was, so that the page shows no alert it did not show
  before (after a click on the upload button, none from the form). The staged file is
  cleared, uploading is reset and the form stays mounted.
\<close>

theorem uploadSettled_update_failure:
  "uploadSettled (Inr rd) (Inl err) fetched (d, s) =
     ((d, Some (s\<lparr>file_s := None, uploading := False\<rparr>)),
      [authAPI_updateStatus ''uploaded_resume'',
       console_error [Text ''Failed to update status:'', ErrObj err]])
   \<and> shownErrors (fst (uploadSettled (Inr rd) (Inl err) fetched (d, s))) =
       shownErrors (d, Some s)
   \<and> (file_s s0 = Some f \<and> \<not> uploading s0 \<longrightarrow>
        fst (uploadSettled (Inr rd) (Inl err) fetched (d, fst (clickUpload s0))) =
          (d, Some (s0\<lparr>file_s := None, uploading := False, error := None\<rparr>))
        \<and> snd (clickUpload s0)
            @ snd (uploadSettled (Inr rd) (Inl err) fetched (d, fst (clickUpload s0))) =
          [resumeAPI_upload f,
           authAPI_updateStatus ''uploaded_resume'',
           console_error [Text ''Failed to update status:'', ErrObj err]]
        \<and> shownErrors (fst (uploadSettled (Inr rd) (Inl err) fetched (d, fst (clickUpload s0)))) =
          shownErrors (d, None))"
  by (simp add: uploadSettled_def handleUpload_settle_def handleResumeUploadSuccess_def
      shownErrors_def clickUpload_def clickUpload_on_def uploadDisabled_def
      handleUpload_begin_def)

theorem uploadSettled_update_failure_witness:
  "file_s (initial_upload\<lparr>file_s := Some \<lparr>name = units ''cv.pdf'', size_f = 10\<rparr>\<rparr>)
     = Some \<lparr>name = units ''cv.pdf'', size_f = 10\<rparr>
   \<and> \<not> uploading (initial_upload\<lparr>file_s := Some \<lparr>name = units ''cv.pdf'', size_f = 10\<rparr>\<rparr>)
   \<and> snd (clickUpload (initial_upload\<lparr>file_s := Some \<lparr>name = units ''cv.pdf'', size_f = 10\<rparr>\<rparr>))
       @ snd (uploadSettled
           (Inr \<lparr>candidate_name = ''Ann'', candidate_email = None, candidate_location = None,
                 skills = [], has_embeddings = False\<rparr>)
           (Inl \<lparr>detail = None, message = Some ''Network Error''\<rparr>)
           (Inl \<lparr>detail = None, message = Some ''Network Error''\<rparr>)
           (initial_dashboard\<lparr>loading := False, showResumeUpload := True\<rparr>,
            fst (clickUpload (initial_upload\<lparr>file_s := Some \<lparr>name = units ''cv.pdf'', size_f = 10\<rparr>\<rparr>))))
     = [resumeAPI_upload \<lparr>name = units ''cv.pdf'', size_f = 10\<rparr>,
        authAPI_updateStatus ''uploaded_resume'',
        console_error [Text ''Failed to update status:'',
          ErrObj \<lparr>detail = None, message = Some ''Network Error''\<rparr>]]"
proof -
  have staged:
    "file_s (initial_upload\<lparr>file_s := Some \<lparr>name = units ''cv.pdf'', size_f = 10\<rparr>\<rparr>)
       = Some \<lparr>name = units ''cv.pdf'', size_f = 10\<rparr>"
    by simp
  have idle: "\<not> uploading (initial_upload\<lparr>file_s := Some \<lparr>name = units ''cv.pdf'', size_f = 10\<rparr>\<rparr>)"
    by (simp add: initial_upload_def)
  show ?thesis
    using staged idle uploadSettled_update_failure
      [of "\<lparr>candidate_name = ''Ann'', candidate_email = None, candidate_location = None,
            skills = [], has_embeddings = False\<rparr>"
        "\<lparr>detail = None, message = Some ''Network Error''\<rparr>"
        "Inl \<lparr>detail = None, message = Some ''Network Error''\<rparr>"
        "initial_dashboard\<lparr>loading := False, showResumeUpload := True\<rparr>"
        "fst (clickUpload (initial_upload\<lparr>file_s := Some \<lparr>name = units ''cv.pdf'', size_f = 10\<rparr>\<rparr>))"
        "initial_upload\<lparr>file_s := Some \<lparr>name = units ''cv.pdf'', size_f = 10\<rparr>\<rparr>"
        "\<lparr>name = units ''cv.pdf'', size_f = 10\<rparr>"]
    by blast
qed

text \<open>
  Claim C3 as stated fails: a registered user uploads cv.pdf, the upload is accepted and
  the status update is refused. The upload form is still shown, and the page presents no
  error at all; the failure went to the console only.
\<close>

theorem updateStatus_failure_shows_no_error:
  "uploadShown
     (fst (fetchUserData (Inr \<lparr>user_name = ''Ann'', status = Str ''registered''\<rparr>)
        initial_dashboard))
   \<and> shownErrors
     (fst (uploadSettled
        (Inr \<lparr>candidate_name = ''Ann'', candidate_email = None, candidate_location = None,
              skills = [], has_embeddings = False\<rparr>)
        (Inl \<lparr>detail = None, message = Some ''Network Error''\<rparr>)
        (Inl \<lparr>detail = None, message = Some ''Network Error''\<rparr>)
        (fst (fetchUserData (Inr \<lparr>user_name = ''Ann'', status = Str ''registered''\<rparr>)
           initial_dashboard),
         fst (clickUpload (initial_upload\<lparr>file_s := Some \<lparr>name = units ''cv.pdf'', size_f = 10\<rparr>\<rparr>)))))
     = []"
  by (simp add: uploadSettled_def handleUpload_settle_def handleResumeUploadSuccess_def
      shownErrors_def clickUpload_def clickUpload_on_def uploadDisabled_def
      handleUpload_begin_def fetchUserData_def initial_dashboard_def initial_upload_def uploadShown_def)

end
